theory Spec2Isabelle
  imports Main
begin

section \<open>The database file\<close>

text \<open>
  The program \<^verbatim>\<open>individual.py\<close> keeps flights in an SQLite file with two tables,
  both created by \<^verbatim>\<open>create_db\<close>:
  \<^verbatim>\<open>
  CREATE TABLE IF NOT EXISTS cities (
      race_id INTEGER PRIMARY KEY AUTOINCREMENT,
      race_name INTEGER NOT NULL)
  CREATE TABLE IF NOT EXISTS races (
      race_id INTEGER PRIMARY KEY AUTOINCREMENT,
      race_name TEXT NOT NULL,
      number_name INTEGER NOT NULL,
      type_name INTEGER NOT NULL,
      FOREIGN KEY(race_name) REFERENCES cities(race_name))
  \<close>
  A row of \<^verbatim>\<open>cities\<close> is a \<open>city\<close> (its two columns are written \<open>city_id\<close> and
  \<open>city_name\<close>, since a field name belongs to one record), a row of \<^verbatim>\<open>races\<close> is a
  \<open>race\<close> with the columns' own names. The program never switches foreign keys on, so
  the \<^verbatim>\<open>FOREIGN KEY\<close> clause constrains nothing.
\<close>

record city =
  city_id :: int
  city_name :: string

record race =
  race_id :: int
  race_name :: string
  number_name :: int
  type_name :: int

text \<open>
  The file holds each table, if it exists, as its rows in rowid order (the order in which a
  scan of the table returns them), and for each \<^verbatim>\<open>AUTOINCREMENT\<close> table the largest
  rowid ever handed out (the table's entry in \<^verbatim>\<open>sqlite_sequence\<close>, 0 when there is
  none). \<open>empty_file\<close> is a file that does not exist yet or holds no table.
\<close>

record database =
  cities :: "city list option"
  races :: "race list option"
  cities_seq :: int
  races_seq :: int

definition empty_file :: database where
  "empty_file = \<lparr>cities = None, races = None, cities_seq = 0, races_seq = 0\<rparr>"

section \<open>Failures\<close>

text \<open>
  Every call into \<^verbatim>\<open>sqlite3\<close> can fail (the file cannot be opened, the disk is full,
  the database is locked, ...). The environment is a predicate \<open>fs\<close> on the calls of the
  program: \<open>fs s\<close> says that call \<open>s\<close> fails with an \<^verbatim>\<open>sqlite3.Error\<close>. Two failures come
  from the data itself: a statement on a table that does not exist, and an insert into a
  table whose rowids are used up. Binding a Python \<^verbatim>\<open>int\<close> outside the 64-bit range
  raises \<^verbatim>\<open>OverflowError\<close>, which is not an \<^verbatim>\<open>sqlite3.Error\<close>.
\<close>

datatype step =
  Connect | CreateCities | CreateRaces | SelectCity | InsertCity | InsertRace | Commit
  | SelectJoin

type_synonym faults = "step \<Rightarrow> bool"

definition no_faults :: faults where
  "no_faults = (\<lambda>s. False)"

datatype sqlite_error = Fault step | NoSuchTable string | DatabaseFull

datatype exn = OverflowError | TypeError | AttributeError

datatype failure = Sqlite3Error sqlite_error | Raised exn

datatype log_entry =
  InfoDatabaseCreated
  | InfoPlaneAdded string int int
  | InfoListEmpty
  | ErrorCreatingDatabase sqlite_error
  | ErrorAddingPlane sqlite_error
  | ErrorSelectingPlanes sqlite_error

text \<open>
  What a call does besides changing the file: the exception it lets through to its caller,
  the lines it prints and the lines it logs.
\<close>

record effects =
  raised :: "exn option"
  stdout :: "string list"
  logged :: "log_entry list"

definition logs :: "log_entry \<Rightarrow> effects" where
  "logs l = \<lparr>raised = None, stdout = [], logged = [l]\<rparr>"

text \<open>
  \<^verbatim>\<open>except sqlite3.Error as e: logger.error(f"...: {e}")\<close>: an \<^verbatim>\<open>sqlite3.Error\<close> is
  logged, any other exception leaves the function.
\<close>

definition except_sqlite3 :: "(sqlite_error \<Rightarrow> log_entry) \<Rightarrow> failure \<Rightarrow> effects" where
  "except_sqlite3 msg f =
     (case f of
        Sqlite3Error e \<Rightarrow> logs (msg e)
      | Raised x \<Rightarrow> \<lparr>raised = Some x, stdout = [], logged = []\<rparr>)"

section \<open>Connections and statements\<close>

text \<open>
  A connection sees the file as \<open>pending\<close>: the committed content plus the changes of its
  open transaction. The \<^verbatim>\<open>sqlite3\<close> module opens a transaction before an
  \<^verbatim>\<open>INSERT\<close>; a \<^verbatim>\<open>CREATE TABLE\<close> outside a transaction is committed at once.
  Other connections read \<open>committed\<close>, and \<open>committed\<close> is what the file holds when the
  connection is closed or given up with its transaction open: changes that were not
  committed never reach the file.
\<close>

record conn =
  committed :: database
  pending :: database
  in_transaction :: bool

definition connect :: "faults \<Rightarrow> database \<Rightarrow> failure + conn" where
  "connect fs db =
     (if fs Connect then Inl (Sqlite3Error (Fault Connect))
      else Inr \<lparr>committed = db, pending = db, in_transaction = False\<rparr>)"

definition dml :: "(database \<Rightarrow> database) \<Rightarrow> conn \<Rightarrow> conn" where
  "dml f c = c\<lparr>pending := f (pending c), in_transaction := True\<rparr>"

definition ddl :: "(database \<Rightarrow> database) \<Rightarrow> conn \<Rightarrow> conn" where
  "ddl f c =
     (if in_transaction c then c\<lparr>pending := f (pending c)\<rparr>
      else c\<lparr>committed := f (pending c), pending := f (pending c)\<rparr>)"

definition commit :: "faults \<Rightarrow> conn \<Rightarrow> failure + conn" where
  "commit fs c =
     (if fs Commit then Inl (Sqlite3Error (Fault Commit))
      else Inr (c\<lparr>committed := pending c, in_transaction := False\<rparr>))"

definition close :: "conn \<Rightarrow> database" where
  "close c = committed c"

text \<open>
  \<^verbatim>\<open>AUTOINCREMENT\<close>: the new rowid is one more than the largest rowid the table has
  ever held; when that is the largest 64-bit integer the insert fails with
  \<^verbatim>\<open>SQLITE_FULL\<close>. The new row has the largest rowid, so it is the last row of a scan.
\<close>

definition next_rowid :: "int list \<Rightarrow> int \<Rightarrow> int option" where
  "next_rowid ids seq =
     (let m = fold max ids seq
      in if 2 ^ 63 - 1 \<le> m then None else Some (m + 1))"

definition fits_int64 :: "int \<Rightarrow> bool" where
  "fits_int64 x \<longleftrightarrow> - (2 ^ 63) \<le> x \<and> x < 2 ^ 63"

definition create_cities :: "faults \<Rightarrow> conn \<Rightarrow> failure + conn" where
  "create_cities fs c =
     (if fs CreateCities then Inl (Sqlite3Error (Fault CreateCities))
      else Inr (ddl (\<lambda>db. case cities db of
                             None \<Rightarrow> db\<lparr>cities := Some []\<rparr>
                           | Some _ \<Rightarrow> db) c))"

definition create_races :: "faults \<Rightarrow> conn \<Rightarrow> failure + conn" where
  "create_races fs c =
     (if fs CreateRaces then Inl (Sqlite3Error (Fault CreateRaces))
      else Inr (ddl (\<lambda>db. case races db of
                             None \<Rightarrow> db\<lparr>races := Some []\<rparr>
                           | Some _ \<Rightarrow> db) c))"

text \<open>
  A statement is compiled, which needs its tables, then its parameters are bound, then it
  runs.

  \<^verbatim>\<open>SELECT race_id FROM cities WHERE race_name = ?\<close> followed by
  \<^verbatim>\<open>fetchone()\<close>: the first matching row of a scan, or \<^verbatim>\<open>None\<close>.

  The column \<^verbatim>\<open>cities.race_name\<close> is declared \<^verbatim>\<open>INTEGER\<close>, so the storage engine
  compares numerically a name that reads as a number (\<^verbatim>\<open>"7"\<close> and \<^verbatim>\<open>"07"\<close> are the
  same city) and as text any other. The engine is not part of the repository: \<open>aff\<close> is
  the value the engine compares for a text, a parameter of the model. Two names match
  when \<open>aff\<close> gives them the same value; every result below holds for every \<open>aff\<close>.
\<close>

definition select_city ::
    "(string \<Rightarrow> 'v) \<Rightarrow> faults \<Rightarrow> string \<Rightarrow> conn \<Rightarrow> failure + city option" where
  "select_city aff fs race c =
     (case cities (pending c) of
        None \<Rightarrow> Inl (Sqlite3Error (NoSuchTable ''cities''))
      | Some cs \<Rightarrow>
          if fs SelectCity then Inl (Sqlite3Error (Fault SelectCity))
          else Inr (find (\<lambda>row. aff (city_name row) = aff race) cs))"

text \<open>\<^verbatim>\<open>INSERT INTO cities (race_name) VALUES (?)\<close>\<close>

definition insert_city :: "faults \<Rightarrow> string \<Rightarrow> conn \<Rightarrow> failure + conn" where
  "insert_city fs race c =
     (case cities (pending c) of
        None \<Rightarrow> Inl (Sqlite3Error (NoSuchTable ''cities''))
      | Some cs \<Rightarrow>
          if fs InsertCity then Inl (Sqlite3Error (Fault InsertCity))
          else case next_rowid (map city_id cs) (cities_seq (pending c)) of
                 None \<Rightarrow> Inl (Sqlite3Error DatabaseFull)
               | Some i \<Rightarrow>
                   Inr (dml (\<lambda>db. db\<lparr>cities := Some (cs @ [\<lparr>city_id = i, city_name = race\<rparr>]),
                                     cities_seq := i\<rparr>) c))"

text \<open>
  \<^verbatim>\<open>INSERT INTO races (race_name, number_name, type_name) VALUES (?, ?, ?)\<close>: binding
  the parameters needs the two integers to fit 64 bits.
\<close>

definition insert_race :: "faults \<Rightarrow> string \<Rightarrow> int \<Rightarrow> int \<Rightarrow> conn \<Rightarrow> failure + conn" where
  "insert_race fs race number type c =
     (case races (pending c) of
        None \<Rightarrow> Inl (Sqlite3Error (NoSuchTable ''races''))
      | Some rs \<Rightarrow>
          if \<not> fits_int64 number \<or> \<not> fits_int64 type then Inl (Raised OverflowError)
          else if fs InsertRace then Inl (Sqlite3Error (Fault InsertRace))
          else case next_rowid (map race_id rs) (races_seq (pending c)) of
                 None \<Rightarrow> Inl (Sqlite3Error DatabaseFull)
               | Some i \<Rightarrow>
                   Inr (dml (\<lambda>db. db\<lparr>races := Some (rs @ [\<lparr>race_id = i, race_name = race,
                                                           number_name = number,
                                                           type_name = type\<rparr>]),
                                     races_seq := i\<rparr>) c))"

text \<open>
  \<^verbatim>\<open>
  SELECT races.race_name, races.number_name, races.type_name
  FROM races INNER JOIN cities ON cities.race_id = races.race_id
  \<close>
  Each row of \<^verbatim>\<open>races\<close>, in scan order, once for every row of \<^verbatim>\<open>cities\<close> with the
  same rowid.
\<close>

definition inner_join :: "race list \<Rightarrow> city list \<Rightarrow> race list" where
  "inner_join rs cs =
     concat (map (\<lambda>r. map (\<lambda>c. r) (filter (\<lambda>c. city_id c = race_id r) cs)) rs)"

definition select_join :: "faults \<Rightarrow> conn \<Rightarrow> failure + race list" where
  "select_join fs c =
     (case races (pending c) of
        None \<Rightarrow> Inl (Sqlite3Error (NoSuchTable ''races''))
      | Some rs \<Rightarrow>
          (case cities (pending c) of
             None \<Rightarrow> Inl (Sqlite3Error (NoSuchTable ''cities''))
           | Some cs \<Rightarrow>
               if fs SelectJoin then Inl (Sqlite3Error (Fault SelectJoin))
               else Inr (inner_join rs cs)))"

section \<open>The operations of the program\<close>

subsection \<open>\<^verbatim>\<open>create_db\<close>\<close>

definition create_db :: "faults \<Rightarrow> database \<Rightarrow> database \<times> effects" where
  "create_db fs db =
     (case connect fs db of
        Inl f \<Rightarrow> (db, except_sqlite3 ErrorCreatingDatabase f)
      | Inr c0 \<Rightarrow>
          (case create_cities fs c0 of
             Inl f \<Rightarrow> (close c0, except_sqlite3 ErrorCreatingDatabase f)
           | Inr c1 \<Rightarrow>
               (case create_races fs c1 of
                  Inl f \<Rightarrow> (close c1, except_sqlite3 ErrorCreatingDatabase f)
                | Inr c2 \<Rightarrow> (close c2, logs InfoDatabaseCreated))))"

subsection \<open>\<^verbatim>\<open>add_plane\<close>\<close>

text \<open>
  The \<^verbatim>\<open>try\<close> block after \<^verbatim>\<open>sqlite3.connect\<close>: the failure that ends it, if any, and
  the connection as the block leaves it. The variable \<^verbatim>\<open>race_id\<close> of the source (the
  rowid of the city found or inserted) is assigned and never read.
\<close>

definition add_plane_block ::
    "(string \<Rightarrow> 'v) \<Rightarrow> faults \<Rightarrow> string \<Rightarrow> int \<Rightarrow> int \<Rightarrow> conn \<Rightarrow> failure option \<times> conn" where
  "add_plane_block aff fs race number type c0 =
     (case select_city aff fs race c0 of
        Inl f \<Rightarrow> (Some f, c0)
      | Inr row \<Rightarrow>
          (case (case row of None \<Rightarrow> insert_city fs race c0 | Some _ \<Rightarrow> Inr c0) of
             Inl f \<Rightarrow> (Some f, c0)
           | Inr c1 \<Rightarrow>
               (case insert_race fs race number type c1 of
                  Inl f \<Rightarrow> (Some f, c1)
                | Inr c2 \<Rightarrow>
                    (case commit fs c2 of
                       Inl f \<Rightarrow> (Some f, c2)
                     | Inr c3 \<Rightarrow> (None, c3)))))"

definition add_plane ::
    "(string \<Rightarrow> 'v) \<Rightarrow> faults \<Rightarrow> database \<Rightarrow> string \<Rightarrow> int \<Rightarrow> int \<Rightarrow> database \<times> effects" where
  "add_plane aff fs db race number type =
     (case connect fs db of
        Inl f \<Rightarrow> (db, except_sqlite3 ErrorAddingPlane f)
      | Inr c0 \<Rightarrow>
          (case add_plane_block aff fs race number type c0 of
             (Some f, c) \<Rightarrow> (close c, except_sqlite3 ErrorAddingPlane f)
           | (None, c) \<Rightarrow> (close c, logs (InfoPlaneAdded race number type))))"

subsection \<open>\<^verbatim>\<open>select_allplanes\<close>\<close>

text \<open>
  Python values as far as the program meets them: a \<^verbatim>\<open>str\<close> (a \<open>char\<close> stands for one
  character of it), an \<^verbatim>\<open>int\<close>, and \<^verbatim>\<open>None\<close>. A \<^verbatim>\<open>dict\<close> with \<^verbatim>\<open>str\<close> keys is an
  association list.
\<close>

datatype pyval = PyStr string | PyInt int | PyNone

type_synonym pydict = "(string \<times> pyval) list"

definition plane_dict :: "race \<Rightarrow> pydict" where
  "plane_dict row =
     [(''race'', PyStr (race_name row)),
      (''number'', PyInt (number_name row)),
      (''type'', PyInt (type_name row))]"

definition select_allplanes :: "faults \<Rightarrow> database \<Rightarrow> pydict list \<times> effects" where
  "select_allplanes fs db =
     (case connect fs db of
        Inl f \<Rightarrow> ([], except_sqlite3 ErrorSelectingPlanes f)
      | Inr c0 \<Rightarrow>
          (case select_join fs c0 of
             Inl f \<Rightarrow> ([], except_sqlite3 ErrorSelectingPlanes f)
           | Inr rows \<Rightarrow>
               (map plane_dict rows, \<lparr>raised = None, stdout = [], logged = []\<rparr>)))"

subsection \<open>\<^verbatim>\<open>display_plane\<close>\<close>

text \<open>
  \<^verbatim>\<open>str(n)\<close> for an \<^verbatim>\<open>int\<close>, and the three alignments of a format field
  \<^verbatim>\<open>{:<w}\<close>, \<^verbatim>\<open>{:>w}\<close> and \<^verbatim>\<open>{:^w}\<close>: a text of \<open>w\<close> characters or more is
  left as it is, and centring puts the odd blank to the right.
\<close>

fun str_nat :: "nat \<Rightarrow> string" where
  "str_nat n =
     (if n < 10 then [''0123456789'' ! n]
      else str_nat (n div 10) @ [''0123456789'' ! (n mod 10)])"

declare str_nat.simps [simp del]

definition str_int :: "int \<Rightarrow> string" where
  "str_int i = (if i < 0 then CHR ''-'' # str_nat (nat (- i)) else str_nat (nat i))"

definition ljust :: "nat \<Rightarrow> string \<Rightarrow> string" where
  "ljust w s = s @ replicate (w - length s) CHR '' ''"

definition rjust :: "nat \<Rightarrow> string \<Rightarrow> string" where
  "rjust w s = replicate (w - length s) CHR '' '' @ s"

definition center :: "nat \<Rightarrow> string \<Rightarrow> string" where
  "center w s =
     replicate ((w - length s) div 2) CHR '' '' @ s
     @ replicate ((w - length s) - (w - length s) div 2) CHR '' ''"

text \<open>
  A format field with a width takes a \<^verbatim>\<open>str\<close> or an \<^verbatim>\<open>int\<close>; \<^verbatim>\<open>None\<close> has no
  such format and raises \<^verbatim>\<open>TypeError\<close>.
\<close>

definition format_field :: "(nat \<Rightarrow> string \<Rightarrow> string) \<Rightarrow> nat \<Rightarrow> pyval \<Rightarrow> exn + string" where
  "format_field align w v =
     (case v of
        PyStr s \<Rightarrow> Inr (align w s)
      | PyInt i \<Rightarrow> Inr (align w (str_int i))
      | PyNone \<Rightarrow> Inl TypeError)"

text \<open>\<^verbatim>\<open>d.get(key, default)\<close>: the value under the key, or the default\<close>

definition py_get :: "pydict \<Rightarrow> string \<Rightarrow> pyval \<Rightarrow> pyval" where
  "py_get d k dflt = (case map_of d k of None \<Rightarrow> dflt | Some v \<Rightarrow> v)"

definition line :: string where
  "line = ''+-'' @ replicate 4 CHR ''-'' @ ''-+-'' @ replicate 30 CHR ''-'' @ ''-+-''
          @ replicate 20 CHR ''-'' @ ''-+-'' @ replicate 12 CHR ''-'' @ ''-+''"

definition header :: string where
  "header = ''| '' @ center 4 ''No'' @ '' | '' @ center 30 ''Destination'' @ '' | ''
            @ center 20 ''Race number'' @ '' | '' @ center 12 ''Plane type'' @ '' |''"

text \<open>
  \<^verbatim>\<open>
  '| {:>4} | {:<30} | {:<20} | {:>12} |'.format(
      idx, planes.get('race', ''), planes.get('number', ''), planes.get('type', 0))
  \<close>
\<close>

definition format_row :: "nat \<Rightarrow> pydict \<Rightarrow> exn + string" where
  "format_row idx planes =
     (case format_field ljust 30 (py_get planes ''race'' (PyStr [])) of
        Inl x \<Rightarrow> Inl x
      | Inr destination \<Rightarrow>
          (case format_field ljust 20 (py_get planes ''number'' (PyStr [])) of
             Inl x \<Rightarrow> Inl x
           | Inr number \<Rightarrow>
               (case format_field rjust 12 (py_get planes ''type'' (PyInt 0)) of
                  Inl x \<Rightarrow> Inl x
                | Inr type \<Rightarrow>
                    Inr (''| '' @ rjust 4 (str_nat idx) @ '' | '' @ destination @ '' | ''
                         @ number @ '' | '' @ type @ '' |''))))"

text \<open>
  The loop \<^verbatim>\<open>for idx, planes in enumerate(staff, 1)\<close>: the lines printed, and the
  exception that stopped the loop, if any. What was printed before stays printed.
\<close>

fun print_rows :: "nat \<Rightarrow> pydict list \<Rightarrow> string list \<times> exn option" where
  "print_rows idx [] = ([], None)"
| "print_rows idx (planes # staff) =
     (case format_row idx planes of
        Inl x \<Rightarrow> ([], Some x)
      | Inr row \<Rightarrow>
          (case print_rows (Suc idx) staff of
             (out, r) \<Rightarrow> (row # line # out, r)))"

definition display_plane :: "pydict list \<Rightarrow> effects" where
  "display_plane staff =
     (if staff \<noteq> [] then
        (case print_rows 1 staff of
           (out, r) \<Rightarrow> \<lparr>raised = r, stdout = [line, header, line] @ out, logged = []\<rparr>)
      else logs InfoListEmpty)"

subsection \<open>\<^verbatim>\<open>main\<close>\<close>

text \<open>
  The command line after parsing. The option \<^verbatim>\<open>--db\<close> belongs to the subcommands, so
  without a subcommand \<^verbatim>\<open>args.db\<close> does not exist. \<open>main\<close> takes one environment
  for \<^verbatim>\<open>create_db\<close> and one for the call that follows it.
\<close>

datatype command = Add string int int | Display | Select

definition after :: "effects \<Rightarrow> effects \<Rightarrow> effects" where
  "after e1 e2 =
     \<lparr>raised = raised e2, stdout = stdout e1 @ stdout e2, logged = logged e1 @ logged e2\<rparr>"

definition main ::
    "(string \<Rightarrow> 'v) \<Rightarrow> faults \<Rightarrow> faults \<Rightarrow> command option \<Rightarrow> database \<Rightarrow> database \<times> effects" where
  "main aff fs_create fs cmd db =
     (case cmd of
        None \<Rightarrow> (db, \<lparr>raised = Some AttributeError, stdout = [], logged = []\<rparr>)
      | Some c \<Rightarrow>
          (case create_db fs_create db of
             (db1, e1) \<Rightarrow>
               if raised e1 \<noteq> None then (db1, e1)
               else
                 (case c of
                    Add race number type \<Rightarrow>
                      (case add_plane aff fs db1 race number type of
                         (db2, e2) \<Rightarrow> (db2, after e1 e2))
                  | Display \<Rightarrow>
                      (case select_allplanes fs db1 of
                         (staff, e2) \<Rightarrow>
                           if raised e2 \<noteq> None then (db1, after e1 e2)
                           else (db1, after e1 (after e2 (display_plane staff))))
                  | Select \<Rightarrow> (db1, e1))))"

section \<open>The stores the program builds\<close>

text \<open>
  A fresh store is what \<^verbatim>\<open>create_db\<close> makes of an empty file. A call of
  \<^verbatim>\<open>add_plane\<close> succeeds when it returns having logged that the plane was added.
  \<open>reachable aff db\<close>: successful calls of \<^verbatim>\<open>add_plane\<close> lead from a fresh store to
  \<open>db\<close>.
\<close>

definition fresh_store :: database where
  "fresh_store = fst (create_db no_faults empty_file)"

definition succeeds ::
    "(string \<Rightarrow> 'v) \<Rightarrow> faults \<Rightarrow> database \<Rightarrow> string \<Rightarrow> int \<Rightarrow> int \<Rightarrow> database \<Rightarrow> bool" where
  "succeeds aff fs db race number type db' \<longleftrightarrow>
     add_plane aff fs db race number type = (db', logs (InfoPlaneAdded race number type))"

inductive reachable :: "(string \<Rightarrow> 'v) \<Rightarrow> database \<Rightarrow> bool" for aff :: "string \<Rightarrow> 'v" where
  fresh: "reachable aff fresh_store"
| added: "reachable aff db \<Longrightarrow> succeeds aff fs db race number type db' \<Longrightarrow> reachable aff db'"

text \<open>
  The invariant of these stores: both tables exist, the rowids of each table are
  \<open>1, 2, ...\<close> in scan order and its sequence entry is the last of them, no two cities
  carry names that match, and there are at most as many cities as races.
\<close>

definition consistent :: "(string \<Rightarrow> 'v) \<Rightarrow> database \<Rightarrow> bool" where
  "consistent aff db \<longleftrightarrow>
     (\<exists>cs rs. cities db = Some cs \<and> races db = Some rs
        \<and> map city_id cs = map int [1..<Suc (length cs)] \<and> cities_seq db = int (length cs)
        \<and> map race_id rs = map int [1..<Suc (length rs)] \<and> races_seq db = int (length rs)
        \<and> distinct (map (\<lambda>c. aff (city_name c)) cs)
        \<and> length cs \<le> length rs)"

section \<open>Unfolding the model\<close>

lemmas add_plane_defs =
  add_plane_def add_plane_block_def connect_def select_city_def insert_city_def
  insert_race_def commit_def close_def dml_def next_rowid_def fits_int64_def
  except_sqlite3_def logs_def no_faults_def

lemmas select_allplanes_defs =
  select_allplanes_def select_join_def connect_def inner_join_def plane_dict_def
  except_sqlite3_def logs_def no_faults_def

lemmas create_db_defs =
  create_db_def connect_def create_cities_def create_races_def ddl_def close_def
  except_sqlite3_def logs_def no_faults_def

lemma fresh_store_eq:
  "fresh_store = \<lparr>cities = Some [], races = Some [], cities_seq = 0, races_seq = 0\<rparr>"
  by (simp add: fresh_store_def create_db_def connect_def no_faults_def empty_file_def
      create_cities_def create_races_def ddl_def close_def)

lemma except_not_info:
  "except_sqlite3 ErrorAddingPlane f \<noteq> logs (InfoPlaneAdded r n t)"
  by (simp add: except_sqlite3_def logs_def split: failure.splits)

section \<open>What a successful \<^verbatim>\<open>add_plane\<close> does\<close>

lemma succeeds_D:
  assumes "succeeds aff fs db race number type db'"
  shows "\<exists>cs rs i. cities db = Some cs \<and> races db = Some rs
           \<and> fits_int64 number \<and> fits_int64 type
           \<and> next_rowid (map race_id rs) (races_seq db) = Some i
           \<and> ((find (\<lambda>row. aff (city_name row) = aff race) cs \<noteq> None
                 \<and> db' = db\<lparr>races := Some (rs @ [\<lparr>race_id = i, race_name = race,
                                  number_name = number, type_name = type\<rparr>]), races_seq := i\<rparr>)
              \<or> (find (\<lambda>row. aff (city_name row) = aff race) cs = None
                 \<and> (\<exists>j. next_rowid (map city_id cs) (cities_seq db) = Some j
                      \<and> db' = db\<lparr>cities := Some (cs @ [\<lparr>city_id = j, city_name = race\<rparr>]),
                                  cities_seq := j,
                                  races := Some (rs @ [\<lparr>race_id = i, race_name = race,
                                  number_name = number, type_name = type\<rparr>]),
                                  races_seq := i\<rparr>)))"
  using assms
  unfolding succeeds_def add_plane_def add_plane_block_def connect_def select_city_def
    insert_city_def insert_race_def commit_def close_def dml_def
  by (auto simp: except_not_info split: sum.splits option.splits if_splits prod.splits)

lemma succeeds_races:
  assumes "succeeds aff fs db race number type db'"
  shows "\<exists>rs i. races db = Some rs
           \<and> next_rowid (map race_id rs) (races_seq db) = Some i
           \<and> races db' = Some (rs @ [\<lparr>race_id = i, race_name = race,
                                       number_name = number, type_name = type\<rparr>])
           \<and> races_seq db' = i"
  using succeeds_D[OF assms] by auto

lemma succeeds_cities:
  assumes "succeeds aff fs db race number type db'"
  shows "\<exists>cs. cities db = Some cs
           \<and> (if \<exists>c\<in>set cs. aff (city_name c) = aff race
               then cities db' = Some cs \<and> cities_seq db' = cities_seq db
               else \<exists>j. next_rowid (map city_id cs) (cities_seq db) = Some j
                      \<and> cities db' = Some (cs @ [\<lparr>city_id = j, city_name = race\<rparr>])
                      \<and> cities_seq db' = j)"
  using succeeds_D[OF assms] by (auto simp: find_None_iff)

section \<open>The invariant\<close>

lemma fold_max_bounded: "\<forall>i\<in>set ids. i \<le> s \<Longrightarrow> fold max ids (s::int) = s"
  by (induction ids) (auto simp: max_def)

lemma next_rowid_dense:
  assumes "ids = map int [1..<Suc n]" "next_rowid ids (int n) = Some i"
  shows "i = int n + 1"
proof -
  have "\<forall>i\<in>set ids. i \<le> int n" using assms(1) by auto
  then have "fold max ids (int n) = int n" by (rule fold_max_bounded)
  with assms(2) show ?thesis by (simp add: next_rowid_def Let_def split: if_splits)
qed

lemma consistent_fresh: "consistent aff fresh_store"
  by (simp add: consistent_def fresh_store_eq)

lemma consistent_step:
  assumes c: "consistent aff db" and s: "succeeds aff fs db race number type db'"
  shows "consistent aff db'"
proof -
  from c obtain cs rs where inv:
    "cities db = Some cs" "races db = Some rs"
    "map city_id cs = map int [1..<Suc (length cs)]" "cities_seq db = int (length cs)"
    "map race_id rs = map int [1..<Suc (length rs)]" "races_seq db = int (length rs)"
    "distinct (map (\<lambda>c. aff (city_name c)) cs)" "length cs \<le> length rs"
    unfolding consistent_def by blast
  from succeeds_races[OF s] inv(2) obtain i where
    i: "next_rowid (map race_id rs) (races_seq db) = Some i"
    and rs': "races db' = Some (rs @ [\<lparr>race_id = i, race_name = race,
                                        number_name = number, type_name = type\<rparr>])"
             "races_seq db' = i"
    by auto
  have i': "i = int (length rs) + 1"
    using next_rowid_dense[OF inv(5)] i inv(6) by simp
  show ?thesis
  proof (cases "\<exists>c\<in>set cs. aff (city_name c) = aff race")
    case True
    with succeeds_cities[OF s] inv(1)
    have "cities db' = Some cs" "cities_seq db' = cities_seq db" by auto
    then show ?thesis
      unfolding consistent_def using inv rs' i' by simp
  next
    case False
    with succeeds_cities[OF s] inv(1) obtain j where
      j: "next_rowid (map city_id cs) (cities_seq db) = Some j"
      and cs': "cities db' = Some (cs @ [\<lparr>city_id = j, city_name = race\<rparr>])"
               "cities_seq db' = j"
      by auto
    have j': "j = int (length cs) + 1"
      using next_rowid_dense[OF inv(3)] j inv(4) by simp
    have "aff race \<notin> set (map (\<lambda>c. aff (city_name c)) cs)"
      using False by auto
    then show ?thesis
      unfolding consistent_def using inv rs' cs' i' j' by simp
  qed
qed

lemma reachable_consistent: "reachable aff db \<Longrightarrow> consistent aff db"
  by (induction rule: reachable.induct) (auto intro: consistent_fresh consistent_step)

section \<open>Round trip\<close>

text \<open>
  C1. The claim: in every store reached by successful calls of \<^verbatim>\<open>add_plane\<close> from a
  fresh store, a flight that was added is in the list that \<^verbatim>\<open>select_allplanes\<close>
  returns. The program does not do that. Two flights to one destination: both calls
  succeed, the store holds one city and two races, and the join on the rowids returns the
  first flight only. The second flight, \<open>(''A'', 2, 20)\<close>, is not listed.
\<close>

theorem second_flight_to_same_destination_not_listed:
  "(let db1 = fst (add_plane aff no_faults fresh_store ''A'' 1 10);
        db2 = fst (add_plane aff no_faults db1 ''A'' 2 20)
    in succeeds aff no_faults fresh_store ''A'' 1 10 db1
       \<and> succeeds aff no_faults db1 ''A'' 2 20 db2
       \<and> cities db2 = Some [\<lparr>city_id = 1, city_name = ''A''\<rparr>]
       \<and> races db2 =
           Some [\<lparr>race_id = 1, race_name = ''A'', number_name = 1, type_name = 10\<rparr>,
                 \<lparr>race_id = 2, race_name = ''A'', number_name = 2, type_name = 20\<rparr>]
       \<and> select_allplanes no_faults db2 =
           ([[(''race'', PyStr ''A''), (''number'', PyInt 1), (''type'', PyInt 10)]],
            \<lparr>raised = None, stdout = [], logged = []\<rparr>)
       \<and> [(''race'', PyStr ''A''), (''number'', PyInt 2), (''type'', PyInt 20)]
           \<notin> set (fst (select_allplanes no_faults db2)))"
  by (simp add: succeeds_def fresh_store_eq add_plane_defs select_allplanes_defs)

section \<open>The listing\<close>

lemma set_inner_join:
  "set (inner_join rs cs) = {r \<in> set rs. \<exists>c\<in>set cs. city_id c = race_id r}"
  by (auto simp: inner_join_def)

lemma inner_join_ignores_names:
  "inner_join rs (map (\<lambda>c. c\<lparr>city_name := g c\<rparr>) cs) = inner_join rs cs"
  by (simp add: inner_join_def filter_map comp_def)

lemma select_allplanes_rows:
  "cities db = Some cs \<Longrightarrow> races db = Some rs \<Longrightarrow>
   select_allplanes no_faults db =
     (map plane_dict (inner_join rs cs), \<lparr>raised = None, stdout = [], logged = []\<rparr>)"
  by (simp add: select_allplanes_def select_join_def connect_def no_faults_def)

lemma count_rowid:
  assumes "map city_id cs = map int [1..<Suc (length cs)]"
  shows "filter (\<lambda>c. city_id c = i) cs = [] \<longleftrightarrow> \<not> (1 \<le> i \<and> i \<le> int (length cs))"
proof -
  have "set (map city_id cs) = {i. 1 \<le> i \<and> i \<le> int (length cs)}"
    unfolding assms by (auto simp: image_iff) presburger
  then have "(\<exists>c\<in>set cs. city_id c = i) \<longleftrightarrow> 1 \<le> i \<and> i \<le> int (length cs)"
    by (metis (mono_tags, lifting) image_iff list.set_map mem_Collect_eq)
  then show ?thesis by (auto simp: filter_empty_conv)
qed

lemma one_rowid:
  assumes "map city_id cs = map int [1..<Suc (length cs)]"
  shows "length (filter (\<lambda>c. city_id c = i) cs) \<le> 1"
proof -
  have "distinct (map city_id cs)" unfolding assms by (simp add: distinct_map inj_on_def)
  have "length (filter (\<lambda>c. city_id c = i) cs) = length (filter (\<lambda>x. x = i) (map city_id cs))"
    by (simp add: filter_map comp_def)
  also have "\<dots> = card ({x. x = i} \<inter> set (map city_id cs))"
    using \<open>distinct (map city_id cs)\<close> by (rule distinct_length_filter)
  also have "\<dots> \<le> card {i}" by (intro card_mono) auto
  finally show ?thesis by simp
qed

lemma joined_once:
  assumes "map city_id cs = map int [1..<Suc (length cs)]"
  shows "map (\<lambda>c. r) (filter (\<lambda>c. city_id c = race_id r) cs)
         = (if 1 \<le> race_id r \<and> race_id r \<le> int (length cs) then [r] else [])"
proof -
  let ?xs = "filter (\<lambda>c. city_id c = race_id r) cs"
  have a: "?xs = [] \<longleftrightarrow> \<not> (1 \<le> race_id r \<and> race_id r \<le> int (length cs))"
    using count_rowid[OF assms] .
  have b: "length ?xs \<le> 1" using one_rowid[OF assms] .
  show ?thesis
  proof (cases ?xs)
    case Nil
    then show ?thesis using a by simp
  next
    case (Cons x xs)
    with b have "xs = []" by simp
    with Cons a show ?thesis by simp
  qed
qed

lemma inner_join_filter:
  assumes "map city_id cs = map int [1..<Suc (length cs)]"
  shows "inner_join rs cs = filter (\<lambda>r. 1 \<le> race_id r \<and> race_id r \<le> int (length cs)) rs"
  unfolding inner_join_def
  by (induction rs) (simp_all add: joined_once[OF assms])

lemma filter_dense_take:
  "map race_id rs = map int [1..<Suc (length rs)] \<Longrightarrow>
   filter (\<lambda>r. 1 \<le> race_id r \<and> race_id r \<le> int k) rs = take k rs"
proof (induction rs rule: rev_induct)
  case Nil
  then show ?case by simp
next
  case (snoc x xs)
  then have "map race_id xs = map int [1..<Suc (length xs)]" "race_id x = int (Suc (length xs))"
    by simp_all
  with snoc.IH show ?case by auto
qed

lemma inner_join_take:
  assumes "consistent aff db" "cities db = Some cs" "races db = Some rs"
  shows "inner_join rs cs = take (length cs) rs"
  using assms unfolding consistent_def
  by (auto simp: inner_join_filter filter_dense_take)

text \<open>
  C2. In a store with both tables, \<^verbatim>\<open>select_allplanes\<close> returns the rows that the join
  selects, and a race is selected exactly when some city has the race's own rowid. The
  names of the cities play no part: renaming every city leaves the join as it is. In a
  store built by the program the cities have the rowids \<open>1, ..., k\<close>, so the join selects
  the first \<open>k\<close> races, \<open>k\<close> the number of cities, and leaves out every race with a
  rowid above \<open>k\<close>.
\<close>

theorem listing_joins_on_rowids:
  assumes "cities db = Some cs" and "races db = Some rs"
  shows "fst (select_allplanes no_faults db) = map plane_dict (inner_join rs cs)
     \<and> (\<forall>r. r \<in> set (inner_join rs cs) \<longleftrightarrow> r \<in> set rs \<and> (\<exists>c\<in>set cs. city_id c = race_id r))
     \<and> (\<forall>g. inner_join rs (map (\<lambda>c. c\<lparr>city_name := g c\<rparr>) cs) = inner_join rs cs)
     \<and> (reachable aff db \<longrightarrow>
          inner_join rs cs = take (length cs) rs
          \<and> (\<forall>r\<in>set rs. int (length cs) < race_id r \<longrightarrow> r \<notin> set (inner_join rs cs)))"
proof -
  have "fst (select_allplanes no_faults db) = map plane_dict (inner_join rs cs)"
    using assms by (simp add: select_allplanes_rows)
  moreover have "\<forall>r. r \<in> set (inner_join rs cs) \<longleftrightarrow> r \<in> set rs \<and> (\<exists>c\<in>set cs. city_id c = race_id r)"
    by (simp add: set_inner_join)
  moreover have "\<forall>g. inner_join rs (map (\<lambda>c. c\<lparr>city_name := g c\<rparr>) cs) = inner_join rs cs"
    by (simp add: inner_join_ignores_names)
  moreover have "inner_join rs cs = take (length cs) rs" if "reachable aff db"
    using inner_join_take[OF reachable_consistent[OF that] assms] .
  moreover have "\<forall>r\<in>set rs. int (length cs) < race_id r \<longrightarrow> r \<notin> set (inner_join rs cs)"
    if "reachable aff db"
  proof -
    have "map city_id cs = map int [1..<Suc (length cs)]"
      using reachable_consistent[OF that] assms by (auto simp: consistent_def)
    then show ?thesis by (simp add: inner_join_filter)
  qed
  ultimately show ?thesis by blast
qed

theorem listing_joins_on_rowids_witness:
  "cities \<lparr>cities = Some [\<lparr>city_id = 1, city_name = ''A''\<rparr>],
           races = Some [\<lparr>race_id = 1, race_name = ''A'', number_name = 1, type_name = 10\<rparr>,
                         \<lparr>race_id = 2, race_name = ''A'', number_name = 2, type_name = 20\<rparr>],
           cities_seq = 1, races_seq = 2\<rparr> = Some [\<lparr>city_id = 1, city_name = ''A''\<rparr>]
   \<and> reachable (\<lambda>s. s)
        \<lparr>cities = Some [\<lparr>city_id = 1, city_name = ''A''\<rparr>],
         races = Some [\<lparr>race_id = 1, race_name = ''A'', number_name = 1, type_name = 10\<rparr>,
                       \<lparr>race_id = 2, race_name = ''A'', number_name = 2, type_name = 20\<rparr>],
         cities_seq = 1, races_seq = 2\<rparr>
   \<and> inner_join [\<lparr>race_id = 1, race_name = ''A'', number_name = 1, type_name = 10\<rparr>,
                  \<lparr>race_id = 2, race_name = ''A'', number_name = 2, type_name = 20\<rparr>]
                 [\<lparr>city_id = 1, city_name = ''A''\<rparr>]
       = [\<lparr>race_id = 1, race_name = ''A'', number_name = 1, type_name = 10\<rparr>]
   \<and> int (length [\<lparr>city_id = 1, city_name = ''A''\<rparr>])
       < race_id \<lparr>race_id = 2, race_name = ''A'', number_name = 2, type_name = 20\<rparr>
   \<and> \<lparr>race_id = 2, race_name = ''A'', number_name = 2, type_name = 20\<rparr>
       \<notin> set (inner_join [\<lparr>race_id = 1, race_name = ''A'', number_name = 1, type_name = 10\<rparr>,
                           \<lparr>race_id = 2, race_name = ''A'', number_name = 2, type_name = 20\<rparr>]
                          [\<lparr>city_id = 1, city_name = ''A''\<rparr>])
   \<and> fst (select_allplanes no_faults
        \<lparr>cities = Some [\<lparr>city_id = 1, city_name = ''A''\<rparr>],
         races = Some [\<lparr>race_id = 1, race_name = ''A'', number_name = 1, type_name = 10\<rparr>,
                       \<lparr>race_id = 2, race_name = ''A'', number_name = 2, type_name = 20\<rparr>],
         cities_seq = 1, races_seq = 2\<rparr>)
       = [[(''race'', PyStr ''A''), (''number'', PyInt 1), (''type'', PyInt 10)]]"
proof -
  let ?db1 = "\<lparr>cities = Some [\<lparr>city_id = 1, city_name = ''A''\<rparr>],
         races = Some [\<lparr>race_id = 1, race_name = ''A'', number_name = 1, type_name = 10\<rparr>],
         cities_seq = 1, races_seq = 1\<rparr>"
  let ?db2 = "\<lparr>cities = Some [\<lparr>city_id = 1, city_name = ''A''\<rparr>],
         races = Some [\<lparr>race_id = 1, race_name = ''A'', number_name = 1, type_name = 10\<rparr>,
                       \<lparr>race_id = 2, race_name = ''A'', number_name = 2, type_name = 20\<rparr>],
         cities_seq = 1, races_seq = 2\<rparr>"
  have "succeeds (\<lambda>s. s) no_faults fresh_store ''A'' 1 10 ?db1"
    by (simp add: succeeds_def fresh_store_eq add_plane_defs)
  then have r1: "reachable (\<lambda>s. s) ?db1"
    by (rule reachable.added[OF reachable.fresh])
  have "succeeds (\<lambda>s. s) no_faults ?db1 ''A'' 2 20 ?db2"
    by (simp add: succeeds_def add_plane_defs)
  with r1 have r2: "reachable (\<lambda>s. s) ?db2"
    by (rule reachable.added)
  show ?thesis
    using r2 listing_joins_on_rowids[of ?db2 "[\<lparr>city_id = 1, city_name = ''A''\<rparr>]"
        "[\<lparr>race_id = 1, race_name = ''A'', number_name = 1, type_name = 10\<rparr>,
          \<lparr>race_id = 2, race_name = ''A'', number_name = 2, type_name = 20\<rparr>]" "\<lambda>s. s"]
    by (simp add: plane_dict_def)
qed

section \<open>Get or create\<close>

lemma one_match:
  assumes "distinct (map f xs)" "\<exists>x\<in>set xs. f x = v"
  shows "length (filter (\<lambda>x. f x = v) xs) = 1"
proof -
  have "length (filter (\<lambda>x. f x = v) xs) = length (filter (\<lambda>y. y = v) (map f xs))"
    by (simp add: filter_map comp_def)
  also have "\<dots> = card ({y. y = v} \<inter> set (map f xs))"
    using assms(1) by (rule distinct_length_filter)
  also have "{y. y = v} \<inter> set (map f xs) = {v}" using assms(2) by auto
  finally show ?thesis by simp
qed

text \<open>
  C3. A successful \<^verbatim>\<open>add_plane\<close> appends one row to \<^verbatim>\<open>races\<close>, with the
  destination, number and type given; it leaves \<^verbatim>\<open>cities\<close> as it is when a city of
  that name is there (a city carries the name when the lookup
  \<^verbatim>\<open>WHERE race_name = ?\<close> finds it), and appends one city of that name otherwise.
  When a second successful call with the same name follows, in a store built by the
  program, exactly one city carries the name and the two races are the new rows of
  \<^verbatim>\<open>races\<close>.
\<close>

theorem get_or_create:
  assumes "succeeds aff fs db race number type db'"
  shows "(\<exists>cs rs r. cities db = Some cs \<and> races db = Some rs
            \<and> races db' = Some (rs @ [r])
            \<and> race_name r = race \<and> number_name r = number \<and> type_name r = type
            \<and> (if \<exists>c\<in>set cs. aff (city_name c) = aff race
                then cities db' = Some cs
                else \<exists>c. cities db' = Some (cs @ [c]) \<and> city_name c = race))
     \<and> (reachable aff db \<longrightarrow>
          (\<forall>fs2 number2 type2 db2. succeeds aff fs2 db' race number2 type2 db2 \<longrightarrow>
             (\<exists>cs2 rs r1 r2. cities db2 = Some cs2 \<and> races db = Some rs
                \<and> length (filter (\<lambda>c. aff (city_name c) = aff race) cs2) = 1
                \<and> races db2 = Some (rs @ [r1, r2])
                \<and> race_name r1 = race \<and> number_name r1 = number \<and> type_name r1 = type
                \<and> race_name r2 = race \<and> number_name r2 = number2 \<and> type_name r2 = type2)))"
proof (intro conjI impI allI)
  from succeeds_races[OF assms] succeeds_cities[OF assms]
  show "\<exists>cs rs r. cities db = Some cs \<and> races db = Some rs
            \<and> races db' = Some (rs @ [r])
            \<and> race_name r = race \<and> number_name r = number \<and> type_name r = type
            \<and> (if \<exists>c\<in>set cs. aff (city_name c) = aff race
                then cities db' = Some cs
                else \<exists>c. cities db' = Some (cs @ [c]) \<and> city_name c = race)"
    by (auto split: if_splits)
next
  fix fs2 number2 type2 db2
  assume r: "reachable aff db" and s2: "succeeds aff fs2 db' race number2 type2 db2"
  from r assms have "reachable aff db'" by (rule reachable.added)
  then have "consistent aff db'" by (rule reachable_consistent)
  then obtain cs' where cs': "cities db' = Some cs'"
    "distinct (map (\<lambda>c. aff (city_name c)) cs')"
    unfolding consistent_def by blast
  from succeeds_cities[OF assms] cs' have seen: "\<exists>c\<in>set cs'. aff (city_name c) = aff race"
    by (auto split: if_splits)
  with succeeds_cities[OF s2] cs' have c2: "cities db2 = Some cs'" by auto
  have one: "length (filter (\<lambda>c. aff (city_name c) = aff race) cs') = 1"
    using cs'(2) seen by (rule one_match)
  from succeeds_races[OF assms] obtain rs i where
    rs: "races db = Some rs"
        "races db' = Some (rs @ [\<lparr>race_id = i, race_name = race,
                                   number_name = number, type_name = type\<rparr>])"
    by blast
  from succeeds_races[OF s2] rs(2) obtain i2 where
    "races db2 = Some ((rs @ [\<lparr>race_id = i, race_name = race,
                                number_name = number, type_name = type\<rparr>])
                       @ [\<lparr>race_id = i2, race_name = race,
                            number_name = number2, type_name = type2\<rparr>])"
    by auto
  with c2 one rs(1)
  show "\<exists>cs2 rs r1 r2. cities db2 = Some cs2 \<and> races db = Some rs
                \<and> length (filter (\<lambda>c. aff (city_name c) = aff race) cs2) = 1
                \<and> races db2 = Some (rs @ [r1, r2])
                \<and> race_name r1 = race \<and> number_name r1 = number \<and> type_name r1 = type
                \<and> race_name r2 = race \<and> number_name r2 = number2 \<and> type_name r2 = type2"
    by auto
qed

theorem get_or_create_witness:
  "succeeds (\<lambda>s. s) no_faults fresh_store ''A'' 1 10
     \<lparr>cities = Some [\<lparr>city_id = 1, city_name = ''A''\<rparr>],
      races = Some [\<lparr>race_id = 1, race_name = ''A'', number_name = 1, type_name = 10\<rparr>],
      cities_seq = 1, races_seq = 1\<rparr>
   \<and> reachable (\<lambda>s. s) fresh_store
   \<and> succeeds (\<lambda>s. s) no_faults
        \<lparr>cities = Some [\<lparr>city_id = 1, city_name = ''A''\<rparr>],
         races = Some [\<lparr>race_id = 1, race_name = ''A'', number_name = 1, type_name = 10\<rparr>],
         cities_seq = 1, races_seq = 1\<rparr>
        ''A'' 2 20
        \<lparr>cities = Some [\<lparr>city_id = 1, city_name = ''A''\<rparr>],
         races = Some [\<lparr>race_id = 1, race_name = ''A'', number_name = 1, type_name = 10\<rparr>,
                       \<lparr>race_id = 2, race_name = ''A'', number_name = 2, type_name = 20\<rparr>],
         cities_seq = 1, races_seq = 2\<rparr>
   \<and> (\<exists>cs2 r1 r2.
         cities \<lparr>cities = Some [\<lparr>city_id = 1, city_name = ''A''\<rparr>],
                 races = Some [\<lparr>race_id = 1, race_name = ''A'', number_name = 1,
                                 type_name = 10\<rparr>,
                               \<lparr>race_id = 2, race_name = ''A'', number_name = 2,
                                 type_name = 20\<rparr>],
                 cities_seq = 1, races_seq = 2\<rparr> = Some cs2
         \<and> length (filter (\<lambda>c. city_name c = ''A'') cs2) = 1
         \<and> races \<lparr>cities = Some [\<lparr>city_id = 1, city_name = ''A''\<rparr>],
                   races = Some [\<lparr>race_id = 1, race_name = ''A'', number_name = 1,
                                   type_name = 10\<rparr>,
                                 \<lparr>race_id = 2, race_name = ''A'', number_name = 2,
                                   type_name = 20\<rparr>],
                   cities_seq = 1, races_seq = 2\<rparr> = Some ([] @ [r1, r2])
         \<and> number_name r1 = 1 \<and> number_name r2 = 2)"
proof -
  let ?db1 = "\<lparr>cities = Some [\<lparr>city_id = 1, city_name = ''A''\<rparr>],
         races = Some [\<lparr>race_id = 1, race_name = ''A'', number_name = 1, type_name = 10\<rparr>],
         cities_seq = 1, races_seq = 1\<rparr>"
  let ?db2 = "\<lparr>cities = Some [\<lparr>city_id = 1, city_name = ''A''\<rparr>],
         races = Some [\<lparr>race_id = 1, race_name = ''A'', number_name = 1, type_name = 10\<rparr>,
                       \<lparr>race_id = 2, race_name = ''A'', number_name = 2, type_name = 20\<rparr>],
         cities_seq = 1, races_seq = 2\<rparr>"
  have s1: "succeeds (\<lambda>s. s) no_faults fresh_store ''A'' 1 10 ?db1"
    by (simp add: succeeds_def fresh_store_eq add_plane_defs)
  have s2: "succeeds (\<lambda>s. s) no_faults ?db1 ''A'' 2 20 ?db2"
    by (simp add: succeeds_def add_plane_defs)
  have r0: "reachable (\<lambda>s::string. s) fresh_store"
    by (rule reachable.fresh)
  from get_or_create[OF s1] r0 s2
  have "\<exists>cs2 rs r1 r2. cities ?db2 = Some cs2 \<and> races fresh_store = Some rs
          \<and> length (filter (\<lambda>c. city_name c = ''A'') cs2) = 1
          \<and> races ?db2 = Some (rs @ [r1, r2])
          \<and> race_name r1 = ''A'' \<and> number_name r1 = 1 \<and> type_name r1 = 10
          \<and> race_name r2 = ''A'' \<and> number_name r2 = 2 \<and> type_name r2 = 20"
    by blast
  then have "\<exists>cs2 r1 r2. cities ?db2 = Some cs2
          \<and> length (filter (\<lambda>c. city_name c = ''A'') cs2) = 1
          \<and> races ?db2 = Some ([] @ [r1, r2])
          \<and> number_name r1 = 1 \<and> number_name r2 = 2"
    unfolding fresh_store_eq by fastforce
  with s1 s2 r0 show ?thesis by blast
qed

section \<open>Order of the listing\<close>

text \<open>
  C4. From a fresh store, two calls of \<^verbatim>\<open>add_plane\<close> with the destinations \<open>A\<close> and
  \<open>B\<close> (and likewise \<open>Novoalexandrovsk\<close> and \<open>Stavropol\<close>) both succeed, and
  \<^verbatim>\<open>select_allplanes\<close> then returns exactly the two flights, in the order of the
  calls. The two names of a pair must not match for the storage engine, as it is for texts
  that do not read as numbers.
\<close>

theorem sequential_adds_listed_in_order:
  assumes "aff ''A'' \<noteq> aff ''B''" and "aff ''Novoalexandrovsk'' \<noteq> aff ''Stavropol''"
  shows "(let db1 = fst (add_plane aff no_faults fresh_store ''A'' 1 10);
              db2 = fst (add_plane aff no_faults db1 ''B'' 2 20)
          in succeeds aff no_faults fresh_store ''A'' 1 10 db1
             \<and> succeeds aff no_faults db1 ''B'' 2 20 db2
             \<and> select_allplanes no_faults db2 =
                 ([[(''race'', PyStr ''A''), (''number'', PyInt 1), (''type'', PyInt 10)],
                   [(''race'', PyStr ''B''), (''number'', PyInt 2), (''type'', PyInt 20)]],
                  \<lparr>raised = None, stdout = [], logged = []\<rparr>))
       \<and> (let db1 = fst (add_plane aff no_faults fresh_store ''Novoalexandrovsk'' 3234 62);
              db2 = fst (add_plane aff no_faults db1 ''Stavropol'' 9120 82)
          in succeeds aff no_faults fresh_store ''Novoalexandrovsk'' 3234 62 db1
             \<and> succeeds aff no_faults db1 ''Stavropol'' 9120 82 db2
             \<and> select_allplanes no_faults db2 =
                 ([[(''race'', PyStr ''Novoalexandrovsk''), (''number'', PyInt 3234),
                    (''type'', PyInt 62)],
                   [(''race'', PyStr ''Stavropol''), (''number'', PyInt 9120),
                    (''type'', PyInt 82)]],
                  \<lparr>raised = None, stdout = [], logged = []\<rparr>))"
  using assms
  by (simp add: succeeds_def fresh_store_eq add_plane_defs select_allplanes_defs)

theorem sequential_adds_listed_in_order_witness:
  "(\<lambda>s. s) ''A'' \<noteq> (\<lambda>s. s) ''B''
   \<and> (\<lambda>s. s) ''Novoalexandrovsk'' \<noteq> (\<lambda>s. s) ''Stavropol''
   \<and> select_allplanes no_faults
        (fst (add_plane (\<lambda>s. s) no_faults
               (fst (add_plane (\<lambda>s. s) no_faults fresh_store ''A'' 1 10)) ''B'' 2 20))
      = ([[(''race'', PyStr ''A''), (''number'', PyInt 1), (''type'', PyInt 10)],
          [(''race'', PyStr ''B''), (''number'', PyInt 2), (''type'', PyInt 20)]],
         \<lparr>raised = None, stdout = [], logged = []\<rparr>)
   \<and> select_allplanes no_faults
        (fst (add_plane (\<lambda>s. s) no_faults
               (fst (add_plane (\<lambda>s. s) no_faults fresh_store ''Novoalexandrovsk'' 3234 62))
               ''Stavropol'' 9120 82))
      = ([[(''race'', PyStr ''Novoalexandrovsk''), (''number'', PyInt 3234),
           (''type'', PyInt 62)],
          [(''race'', PyStr ''Stavropol''), (''number'', PyInt 9120), (''type'', PyInt 82)]],
         \<lparr>raised = None, stdout = [], logged = []\<rparr>)"
proof -
  have a: "(\<lambda>s. s) ''A'' \<noteq> (\<lambda>s. s) ''B''" by simp
  have b: "(\<lambda>s. s) ''Novoalexandrovsk'' \<noteq> (\<lambda>s. s) ''Stavropol''" by simp
  from sequential_adds_listed_in_order[of "\<lambda>s. s", OF a b] a b
  show ?thesis by (simp add: Let_def)
qed

section \<open>Storage failures\<close>

text \<open>
  C5. When \<^verbatim>\<open>add_plane\<close> logs a storage error, the file is what it was before the
  call (no city and no race of the call is in it), nothing is raised and the error is the
  only line logged. A failure of the connection, of the lookup, of the insert into
  \<^verbatim>\<open>races\<close> or of the commit leaves the file as it was, whatever was inserted before
  in the transaction. (An \<^verbatim>\<open>int\<close> outside the 64-bit range is no storage failure:
  its \<^verbatim>\<open>OverflowError\<close> reaches the caller.)
\<close>

theorem failed_add_leaves_store:
  "(\<forall>e. logged (snd (add_plane aff fs db race number type)) = [ErrorAddingPlane e] \<longrightarrow>
        add_plane aff fs db race number type
        = (db, \<lparr>raised = None, stdout = [], logged = [ErrorAddingPlane e]\<rparr>))
   \<and> (fs Connect \<or> fs SelectCity \<or> fs InsertRace \<or> fs Commit \<longrightarrow>
        fst (add_plane aff fs db race number type) = db
        \<and> logged (snd (add_plane aff fs db race number type))
            \<noteq> [InfoPlaneAdded race number type])"
  unfolding add_plane_def add_plane_block_def connect_def select_city_def
    insert_city_def insert_race_def commit_def close_def dml_def except_sqlite3_def logs_def
  by (auto split: sum.splits option.splits if_splits prod.splits failure.splits)

theorem failed_add_leaves_store_witness:
  "(\<lambda>s. s = Commit) Commit
   \<and> logged (snd (add_plane (\<lambda>s. s) (\<lambda>s. s = Commit) fresh_store ''A'' 5 10))
       = [ErrorAddingPlane (Fault Commit)]
   \<and> add_plane (\<lambda>s. s) (\<lambda>s. s = Commit) fresh_store ''A'' 5 10
       = (fresh_store, \<lparr>raised = None, stdout = [], logged = [ErrorAddingPlane (Fault Commit)]\<rparr>)"
proof -
  have l: "logged (snd (add_plane (\<lambda>s. s) (\<lambda>s. s = Commit) fresh_store ''A'' 5 10))
       = [ErrorAddingPlane (Fault Commit)]"
    by (simp add: fresh_store_eq add_plane_defs)
  with failed_add_leaves_store[of "\<lambda>s. s" "\<lambda>s. s = Commit" fresh_store "''A''" 5 10]
  show ?thesis by simp
qed

text \<open>
  C6. \<^verbatim>\<open>select_allplanes\<close> logs an error exactly when a storage call fails or a table
  is missing. It then returns the empty list and raises nothing, which is also what it
  returns, without an error, for a fresh store.
\<close>

theorem failed_listing_looks_empty:
  "(logged (snd (select_allplanes fs db)) \<noteq> []
      \<longleftrightarrow> fs Connect \<or> fs SelectJoin \<or> cities db = None \<or> races db = None)
   \<and> (logged (snd (select_allplanes fs db)) \<noteq> [] \<longrightarrow>
        (\<exists>e. select_allplanes fs db
              = ([], \<lparr>raised = None, stdout = [], logged = [ErrorSelectingPlanes e]\<rparr>))
        \<and> fst (select_allplanes fs db) = fst (select_allplanes no_faults fresh_store))
   \<and> select_allplanes no_faults fresh_store
       = ([], \<lparr>raised = None, stdout = [], logged = []\<rparr>)"
  unfolding select_allplanes_def select_join_def connect_def except_sqlite3_def logs_def
    fresh_store_eq no_faults_def inner_join_def
  by (auto split: sum.splits option.splits if_splits)

theorem failed_listing_looks_empty_witness:
  "logged (snd (select_allplanes (\<lambda>s. s = SelectJoin)
       \<lparr>cities = Some [\<lparr>city_id = 1, city_name = ''A''\<rparr>],
        races = Some [\<lparr>race_id = 1, race_name = ''A'', number_name = 1, type_name = 10\<rparr>],
        cities_seq = 1, races_seq = 1\<rparr>)) \<noteq> []
   \<and> select_allplanes (\<lambda>s. s = SelectJoin)
       \<lparr>cities = Some [\<lparr>city_id = 1, city_name = ''A''\<rparr>],
        races = Some [\<lparr>race_id = 1, race_name = ''A'', number_name = 1, type_name = 10\<rparr>],
        cities_seq = 1, races_seq = 1\<rparr>
      = ([], \<lparr>raised = None, stdout = [], logged = [ErrorSelectingPlanes (Fault SelectJoin)]\<rparr>)
   \<and> fst (select_allplanes no_faults fresh_store) = []"
  using failed_listing_looks_empty[of "\<lambda>s. s = SelectJoin"
       "\<lparr>cities = Some [\<lparr>city_id = 1, city_name = ''A''\<rparr>],
        races = Some [\<lparr>race_id = 1, race_name = ''A'', number_name = 1, type_name = 10\<rparr>],
        cities_seq = 1, races_seq = 1\<rparr>"]
  by (simp add: select_allplanes_defs)

section \<open>The schema\<close>

text \<open>
  C7. Without failures, \<^verbatim>\<open>create_db\<close> on a file already treated by \<^verbatim>\<open>create_db\<close>
  changes nothing, and after it both tables exist (a file holds a table of a name at most
  once). Where both tables exist \<^verbatim>\<open>create_db\<close> leaves the file as it is, in every
  environment; the rows of a table that exists are never changed.
\<close>

theorem create_db_idempotent:
  "fst (create_db no_faults (fst (create_db no_faults db))) = fst (create_db no_faults db)
   \<and> cities (fst (create_db no_faults db)) \<noteq> None
   \<and> races (fst (create_db no_faults db)) \<noteq> None
   \<and> (cities db \<noteq> None \<and> races db \<noteq> None \<longrightarrow> fst (create_db fs db) = db)
   \<and> (\<forall>cs. cities db = Some cs \<longrightarrow> cities (fst (create_db fs db)) = Some cs)
   \<and> (\<forall>rs. races db = Some rs \<longrightarrow> races (fst (create_db fs db)) = Some rs)"
  unfolding create_db_defs
  by (auto split: option.splits)

theorem create_db_idempotent_witness:
  "cities \<lparr>cities = Some [\<lparr>city_id = 1, city_name = ''A''\<rparr>],
           races = Some [\<lparr>race_id = 1, race_name = ''A'', number_name = 1, type_name = 10\<rparr>],
           cities_seq = 1, races_seq = 1\<rparr> \<noteq> None
   \<and> races \<lparr>cities = Some [\<lparr>city_id = 1, city_name = ''A''\<rparr>],
             races = Some [\<lparr>race_id = 1, race_name = ''A'', number_name = 1, type_name = 10\<rparr>],
             cities_seq = 1, races_seq = 1\<rparr> \<noteq> None
   \<and> fst (create_db no_faults
        \<lparr>cities = Some [\<lparr>city_id = 1, city_name = ''A''\<rparr>],
         races = Some [\<lparr>race_id = 1, race_name = ''A'', number_name = 1, type_name = 10\<rparr>],
         cities_seq = 1, races_seq = 1\<rparr>)
      = \<lparr>cities = Some [\<lparr>city_id = 1, city_name = ''A''\<rparr>],
         races = Some [\<lparr>race_id = 1, race_name = ''A'', number_name = 1, type_name = 10\<rparr>],
         cities_seq = 1, races_seq = 1\<rparr>"
  using create_db_idempotent[of 
       "\<lparr>cities = Some [\<lparr>city_id = 1, city_name = ''A''\<rparr>],
        races = Some [\<lparr>race_id = 1, race_name = ''A'', number_name = 1, type_name = 10\<rparr>],
        cities_seq = 1, races_seq = 1\<rparr>" no_faults]
  by simp

text \<open>
  C8. The command \<^verbatim>\<open>select\<close> does what \<^verbatim>\<open>create_db\<close> does and nothing else: it
  prints nothing, the rows of the tables that exist are unchanged, a table that was missing
  is missing still or empty, and no rowid is handed out.
\<close>

theorem select_command_only_ensures_schema:
  "main aff fs_create fs (Some Select) db = create_db fs_create db
   \<and> raised (snd (main aff fs_create fs (Some Select) db)) = None
   \<and> stdout (snd (main aff fs_create fs (Some Select) db)) = []
   \<and> (\<forall>cs. cities db = Some cs \<longrightarrow>
         cities (fst (main aff fs_create fs (Some Select) db)) = Some cs)
   \<and> (\<forall>rs. races db = Some rs \<longrightarrow>
         races (fst (main aff fs_create fs (Some Select) db)) = Some rs)
   \<and> (cities db = None \<longrightarrow>
         cities (fst (main aff fs_create fs (Some Select) db)) = None
         \<or> cities (fst (main aff fs_create fs (Some Select) db)) = Some [])
   \<and> (races db = None \<longrightarrow>
         races (fst (main aff fs_create fs (Some Select) db)) = None
         \<or> races (fst (main aff fs_create fs (Some Select) db)) = Some [])
   \<and> cities_seq (fst (main aff fs_create fs (Some Select) db)) = cities_seq db
   \<and> races_seq (fst (main aff fs_create fs (Some Select) db)) = races_seq db"
  unfolding main_def create_db_defs
  by (auto split: option.splits)

theorem select_command_only_ensures_schema_witness:
  "cities \<lparr>cities = Some [\<lparr>city_id = 1, city_name = ''A''\<rparr>], races = None,
           cities_seq = 1, races_seq = 0\<rparr> = Some [\<lparr>city_id = 1, city_name = ''A''\<rparr>]
   \<and> races \<lparr>cities = Some [\<lparr>city_id = 1, city_name = ''A''\<rparr>], races = None,
             cities_seq = 1, races_seq = 0\<rparr> = None
   \<and> main (\<lambda>s. s) no_faults no_faults (Some Select)
        \<lparr>cities = Some [\<lparr>city_id = 1, city_name = ''A''\<rparr>], races = None,
         cities_seq = 1, races_seq = 0\<rparr>
      = (\<lparr>cities = Some [\<lparr>city_id = 1, city_name = ''A''\<rparr>], races = Some [],
          cities_seq = 1, races_seq = 0\<rparr>,
         \<lparr>raised = None, stdout = [], logged = [InfoDatabaseCreated]\<rparr>)"
  using select_command_only_ensures_schema[of "\<lambda>s. s" no_faults no_faults
      "\<lparr>cities = Some [\<lparr>city_id = 1, city_name = ''A''\<rparr>], races = None,
        cities_seq = 1, races_seq = 0\<rparr>"]
  by (simp add: create_db_defs)

section \<open>The table\<close>

lemma py_get_not_None:
  assumes "PyNone \<notin> snd ` set planes" "dflt \<noteq> PyNone"
  shows "py_get planes k dflt \<noteq> PyNone"
proof (cases "map_of planes k")
  case None
  then show ?thesis using assms(2) by (simp add: py_get_def)
next
  case (Some v)
  then have "(k, v) \<in> set planes" by (rule map_of_SomeD)
  then have "snd (k, v) \<in> snd ` set planes" by (rule imageI)
  with assms(1) have "v \<noteq> PyNone" by (metis snd_conv)
  with Some show ?thesis by (simp add: py_get_def)
qed

lemma format_field_ok: "v \<noteq> PyNone \<Longrightarrow> \<exists>s. format_field align w v = Inr s"
  by (cases v) (simp_all add: format_field_def)

lemma format_row_ok:
  assumes "PyNone \<notin> snd ` set planes"
  shows "\<exists>row. format_row idx planes = Inr row"
proof -
  obtain a where a: "format_field ljust 30 (py_get planes ''race'' (PyStr [])) = Inr a"
    using format_field_ok[OF py_get_not_None[OF assms]] by blast
  obtain b where b: "format_field ljust 20 (py_get planes ''number'' (PyStr [])) = Inr b"
    using format_field_ok[OF py_get_not_None[OF assms]] by blast
  obtain c where c: "format_field rjust 12 (py_get planes ''type'' (PyInt 0)) = Inr c"
    using format_field_ok[OF py_get_not_None[OF assms]] by blast
  show ?thesis by (simp add: format_row_def a b c)
qed

lemma print_rows_ok:
  assumes "\<forall>planes\<in>set staff. PyNone \<notin> snd ` set planes"
  shows "\<exists>rows. length rows = length staff
           \<and> (\<forall>i<length staff. format_row (idx + i) (staff ! i) = Inr (rows ! i))
           \<and> print_rows idx staff = (concat (map (\<lambda>row. [row, line]) rows), None)"
  using assms
proof (induction staff arbitrary: idx)
  case Nil
  then show ?case by simp
next
  case (Cons planes staff)
  from Cons.prems obtain row where row: "format_row idx planes = Inr row"
    using format_row_ok by force
  from Cons.IH[of "Suc idx"] Cons.prems obtain rows where rows:
    "length rows = length staff"
    "\<forall>i<length staff. format_row (Suc idx + i) (staff ! i) = Inr (rows ! i)"
    "print_rows (Suc idx) staff = (concat (map (\<lambda>row. [row, line]) rows), None)"
    by auto
  have "\<forall>i<length (planes # staff).
          format_row (idx + i) ((planes # staff) ! i) = Inr ((row # rows) ! i)"
  proof (intro allI impI)
    fix i assume "i < length (planes # staff)"
    then show "format_row (idx + i) ((planes # staff) ! i) = Inr ((row # rows) ! i)"
      using row rows(2) by (cases i) auto
  qed
  moreover have "print_rows idx (planes # staff)
                 = (concat (map (\<lambda>row. [row, line]) (row # rows)), None)"
    by (simp add: row rows(3))
  moreover have "length (row # rows) = length (planes # staff)" using rows(1) by simp
  ultimately show ?case by blast
qed

lemma display_plane_ok:
  assumes "\<forall>planes\<in>set staff. PyNone \<notin> snd ` set planes"
  shows "raised (display_plane staff) = None"
proof -
  from print_rows_ok[OF assms, of 1] obtain out where "print_rows 1 staff = (out, None)"
    by blast
  then show ?thesis by (simp add: display_plane_def logs_def)
qed

text \<open>
  C9. \<^verbatim>\<open>select_allplanes\<close> on a fresh store returns the empty list. \<^verbatim>\<open>display_plane\<close>
  on the empty list logs that the list is empty and prints nothing. On records whose
  fields hold texts and integers, as the records of the data model do,
  \<^verbatim>\<open>display_plane\<close> raises nothing.
\<close>

theorem empty_store_and_empty_table:
  "select_allplanes no_faults fresh_store = ([], \<lparr>raised = None, stdout = [], logged = []\<rparr>)
   \<and> display_plane [] = \<lparr>raised = None, stdout = [], logged = [InfoListEmpty]\<rparr>
   \<and> (\<forall>staff. (\<forall>planes\<in>set staff. PyNone \<notin> snd ` set planes) \<longrightarrow>
         raised (display_plane staff) = None)"
  by (simp add: display_plane_ok) (simp add: fresh_store_eq select_allplanes_defs display_plane_def)

theorem empty_store_and_empty_table_witness:
  "PyNone \<notin> snd ` set [(''race'', PyStr ''Stavropol''), (''number'', PyInt 9120),
                           (''type'', PyInt 82)]
   \<and> PyNone \<notin> snd ` set [(''type'', PyInt 5)]
   \<and> raised (display_plane
        [[(''race'', PyStr ''Stavropol''), (''number'', PyInt 9120), (''type'', PyInt 82)],
         [(''type'', PyInt 5)]]) = None"
proof -
  have "\<forall>planes\<in>set [[(''race'', PyStr ''Stavropol''), (''number'', PyInt 9120),
                          (''type'', PyInt 82)],
                         [(''type'', PyInt 5)]]. PyNone \<notin> snd ` set planes"
    by simp
  with empty_store_and_empty_table show ?thesis by simp
qed

lemma format_row_empty:
  "format_row idx [] =
     Inr (''| '' @ rjust 4 (str_nat idx) @ '' | '' @ replicate 30 CHR '' '' @ '' | ''
          @ replicate 20 CHR '' '' @ '' | '' @ replicate 11 CHR '' '' @ ''0'' @ '' |'')"
  by (simp add: format_row_def format_field_def py_get_def ljust_def rjust_def str_int_def
      str_nat.simps[of 0])

lemma py_get_absent:
  assumes "k \<notin> fst ` set planes"
  shows "py_get planes k dflt = dflt"
proof -
  have "map_of planes k = None" using assms by (simp add: map_of_eq_None_iff)
  then show ?thesis by (simp add: py_get_def)
qed

lemma py_get_Cons:
  "py_get ((k, v) # planes) k' dflt = (if k' = k then v else py_get planes k' dflt)"
  by (simp add: py_get_def)

text \<open>
  C10. On every list of records whose fields hold texts and integers, whichever fields
  are missing, \<^verbatim>\<open>display_plane\<close> raises nothing and prints the three lines of the
  head and, for the record at position \<open>i\<close>, its row numbered \<open>i + 1\<close> and a line. A
  record without a destination prints as the record with the empty text for destination,
  one without a number as the record with the empty text for number, one without a type as
  the record with the type \<open>0\<close>; the row of the empty record has blank cells for the
  destination and the number, and \<open>0\<close> for the type.
\<close>

theorem display_plane_total_with_defaults:
  assumes "\<forall>planes\<in>set staff. PyNone \<notin> snd ` set planes"
  shows "raised (display_plane staff) = None
     \<and> (\<exists>rows. length rows = length staff
           \<and> (\<forall>i<length staff. format_row (Suc i) (staff ! i) = Inr (rows ! i))
           \<and> (staff \<noteq> [] \<longrightarrow>
                stdout (display_plane staff)
                = [line, header, line] @ concat (map (\<lambda>row. [row, line]) rows)))
     \<and> (\<forall>idx planes. ''race'' \<notin> fst ` set planes \<longrightarrow>
           format_row idx planes = format_row idx ((''race'', PyStr []) # planes))
     \<and> (\<forall>idx planes. ''number'' \<notin> fst ` set planes \<longrightarrow>
           format_row idx planes = format_row idx ((''number'', PyStr []) # planes))
     \<and> (\<forall>idx planes. ''type'' \<notin> fst ` set planes \<longrightarrow>
           format_row idx planes = format_row idx ((''type'', PyInt 0) # planes))
     \<and> (\<forall>idx. format_row idx [] =
           Inr (''| '' @ rjust 4 (str_nat idx) @ '' | '' @ replicate 30 CHR '' '' @ '' | ''
                @ replicate 20 CHR '' '' @ '' | '' @ replicate 11 CHR '' '' @ ''0'' @ '' |''))"
proof -
  from print_rows_ok[OF assms, of 1] obtain rows where rows:
    "length rows = length staff"
    "\<forall>i<length staff. format_row (1 + i) (staff ! i) = Inr (rows ! i)"
    "print_rows 1 staff = (concat (map (\<lambda>row. [row, line]) rows), None)"
    by blast
  have "\<exists>rows. length rows = length staff
           \<and> (\<forall>i<length staff. format_row (Suc i) (staff ! i) = Inr (rows ! i))
           \<and> (staff \<noteq> [] \<longrightarrow>
                stdout (display_plane staff)
                = [line, header, line] @ concat (map (\<lambda>row. [row, line]) rows))"
    using rows by (intro exI[of _ rows]) (simp add: display_plane_def)
  moreover have "\<forall>idx planes. ''race'' \<notin> fst ` set planes \<longrightarrow>
           format_row idx planes = format_row idx ((''race'', PyStr []) # planes)"
    by (simp add: format_row_def py_get_Cons py_get_absent cong: sum.case_cong)
  moreover have "\<forall>idx planes. ''number'' \<notin> fst ` set planes \<longrightarrow>
           format_row idx planes = format_row idx ((''number'', PyStr []) # planes)"
    by (simp add: format_row_def py_get_Cons py_get_absent cong: sum.case_cong)
  moreover have "\<forall>idx planes. ''type'' \<notin> fst ` set planes \<longrightarrow>
           format_row idx planes = format_row idx ((''type'', PyInt 0) # planes)"
    by (simp add: format_row_def py_get_Cons py_get_absent cong: sum.case_cong)
  ultimately show ?thesis
    using display_plane_ok[OF assms] format_row_empty by blast
qed

theorem display_plane_total_with_defaults_witness:
  "PyNone \<notin> snd ` set [(''race'', PyStr ''Stavropol'')]
   \<and> PyNone \<notin> snd ` set ([] :: pydict)
   \<and> raised (display_plane [[(''race'', PyStr ''Stavropol'')], []]) = None
   \<and> ''number'' \<notin> fst ` set [(''race'', PyStr ''Stavropol'')]
   \<and> format_row 1 [(''race'', PyStr ''Stavropol'')]
       = format_row 1 [(''number'', PyStr []), (''race'', PyStr ''Stavropol'')]"
  using display_plane_total_with_defaults[of "[[(''race'', PyStr ''Stavropol'')], []]"]
  by simp

end
